theory Spec2Isabelle
  imports Main "HOL-Library.Sublist"
begin

section \<open>Quick Binary Reload: the plugin's \<open>activate\<close> handler\<close>

text \<open>
  The plugin (\<^verbatim>\<open>reload_binary_plugin.py\<close>) has one operation of substance,
  \<^verbatim>\<open>ReloadBinaryHandler.activate\<close>. It reads paths from the host (IDA), asks the
  user, writes a batch script next to the database, spawns it and exits the host.
  The model below makes the ambient reads a record \<open>host\<close>, the effects a record
  \<open>world\<close> that is passed through, and every exception a branch.
\<close>

subsection \<open>Library functions the handler calls\<close>

text \<open>
  \<^verbatim>\<open>str.rfind(c)\<close>: the index of the last occurrence of a character, \<open>-1\<close> when there is
  none.
\<close>

fun rfind_from :: "char \<Rightarrow> string \<Rightarrow> int \<Rightarrow> int \<Rightarrow> int" where
  "rfind_from c [] i found = found"
| "rfind_from c (x # xs) i found = rfind_from c xs (i + 1) (if x = c then i else found)"

definition rfind :: "char \<Rightarrow> string \<Rightarrow> int" where
  "rfind c p = rfind_from c p 0 (- 1)"

text \<open>
  \<^verbatim>\<open>os.path.splitext\<close> is \<^verbatim>\<open>genericpath._splitext(p, sep, altsep, extsep)\<close>:
  \<^verbatim>\<open>
    sepIndex = p.rfind(sep)
    if altsep:
        sepIndex = max(sepIndex, p.rfind(altsep))
    dotIndex = p.rfind(extsep)
    if dotIndex > sepIndex:
        filenameIndex = sepIndex + 1
        while filenameIndex < dotIndex:
            if p[filenameIndex:filenameIndex+1] != extsep:
                return p[:dotIndex], p[dotIndex:]
            filenameIndex += 1
    return p, p[:0]
  \<close>
  The while loop is \<open>skip_leading_dots\<close>: it answers whether the loop returns the split.
\<close>

function skip_leading_dots :: "char \<Rightarrow> string \<Rightarrow> int \<Rightarrow> int \<Rightarrow> bool" where
  "skip_leading_dots extsep p filenameIndex dotIndex =
     (if filenameIndex < dotIndex then
        (if p ! nat filenameIndex \<noteq> extsep then True
         else skip_leading_dots extsep p (filenameIndex + 1) dotIndex)
      else False)"
  by pat_completeness auto
termination
  by (relation "measure (\<lambda>(e, p, i, d). nat (d - i))") auto

definition splitext_generic :: "char \<Rightarrow> char option \<Rightarrow> char \<Rightarrow> string \<Rightarrow> string \<times> string" where
  "splitext_generic sep altsep extsep p =
     (let sepIndex = (case altsep of
                        None \<Rightarrow> rfind sep p
                      | Some a \<Rightarrow> max (rfind sep p) (rfind a p));
          dotIndex = rfind extsep p
      in if dotIndex > sepIndex \<and> skip_leading_dots extsep p (sepIndex + 1) dotIndex
         then (take (nat dotIndex) p, drop (nat dotIndex) p)
         else (p, []))"

text \<open>
  \<^verbatim>\<open>os.path\<close> is \<^verbatim>\<open>posixpath\<close> or \<^verbatim>\<open>ntpath\<close>, bound when \<^verbatim>\<open>os\<close> is imported.
  \<^verbatim>\<open>posixpath\<close> has \<open>sep = '/'\<close> and no \<open>altsep\<close>; \<^verbatim>\<open>ntpath\<close> has a backslash as
  \<open>sep\<close> and \<open>altsep = '/'\<close>.
\<close>

datatype path_module = Posixpath | Ntpath

fun splitext :: "path_module \<Rightarrow> string \<Rightarrow> string \<times> string" where
  "splitext Posixpath p = splitext_generic (CHR ''/'') None (CHR ''.'') p"
| "splitext Ntpath p = splitext_generic (CHR 0x5C) (Some (CHR ''/'')) (CHR ''.'') p"

subsection \<open>The host and the world\<close>

text \<open>
  \<^verbatim>\<open>ida_kernwin.ask_yn\<close> returns one of three buttons.
\<close>

datatype askbtn = ASKBTN_CANCEL | ASKBTN_NO | ASKBTN_YES

text \<open>
  What \<open>activate\<close> reads. A call that can raise is a sum: \<open>Inl msg\<close> is an exception
  whose \<^verbatim>\<open>str(e)\<close> is \<open>msg\<close>. A host path is \<^verbatim>\<open>None\<close> or a string.
  \<open>open_error\<close>, \<open>write_error\<close> and \<open>popen_error\<close> say which I/O call of the
  handler raises: \<^verbatim>\<open>open(batch_path, 'w')\<close>, the \<open>k\<close>-th \<^verbatim>\<open>f.write\<close> (from 0), and
  \<^verbatim>\<open>subprocess.Popen\<close>.
\<close>

record host =
  get_input_file_path :: "string + string option"
  ask_yn :: "string + askbtn"
  get_path_idb :: "string + string option"
  sys_executable :: string
  os_name :: string
  os_path :: path_module
  open_error :: "string option"
  write_error :: "(nat \<times> string) option"
  popen_error :: "string option"

text \<open>
  One \<^verbatim>\<open>subprocess.Popen(args, shell=..., creationflags=...)\<close> call.
\<close>

record popen_call =
  args :: "string list"
  shell :: bool
  creationflags :: nat

definition CREATE_NO_WINDOW :: nat where
  "CREATE_NO_WINDOW = 0x08000000"

text \<open>
  What \<open>activate\<close> can change: the files on disk (path to contents), the processes
  spawned, whether the host process still runs (\<^verbatim>\<open>ida_pro.qexit\<close> ends it), the lines
  printed to the console and the messages shown by \<^verbatim>\<open>ida_kernwin.warning\<close>.
\<close>

record world =
  files :: "string \<rightharpoonup> string"
  spawned :: "popen_call list"
  host_running :: bool
  console :: "string list"
  warnings :: "string list"

text \<open>
  The handler returns 0 or 1, or does not return: \<^verbatim>\<open>qexit(code)\<close> ends the process.
\<close>

datatype outcome = Returns int | Exits int

definition path_exists :: "world \<Rightarrow> string \<Rightarrow> bool" where
  "path_exists w p = (files w p \<noteq> None)"

definition print :: "string \<Rightarrow> world \<Rightarrow> world" where
  "print line w = w\<lparr>console := console w @ [line]\<rparr>"

definition warning :: "string \<Rightarrow> world \<Rightarrow> world" where
  "warning msg w = w\<lparr>warnings := warnings w @ [msg]\<rparr>"

subsection \<open>The batch script\<close>

definition quoted :: "string \<Rightarrow> string" where
  "quoted s = CHR 0x22 # s @ [CHR 0x22]"

definition extensions :: "string list" where
  "extensions = [''.id0'', ''.id1'', ''.id2'', ''.nam'', ''.til'', ''.i64'']"

definition echo_off_line :: string where
  "echo_off_line = ''@echo off\<newline>''"

definition delay_line :: string where
  "delay_line = ''timeout /t 1 /nobreak >nul\<newline>''"

definition del_line :: "string \<Rightarrow> string" where
  "del_line file_to_delete = ''del /F /Q '' @ quoted file_to_delete @ '' 2>nul\<newline>''"

definition start_line :: "string \<Rightarrow> string \<Rightarrow> string" where
  "start_line ida_exe input_path =
     ''start '' @ quoted [] @ '' '' @ quoted ida_exe @ '' -A -c '' @ quoted input_path @ ''\<newline>''"

definition self_del_line :: "string \<Rightarrow> string" where
  "self_del_line batch_path = ''del /F /Q '' @ quoted batch_path @ ''\<newline>''"

text \<open>
  The first loop (source lines 84 to 87) writes a deletion only for a file that exists.
\<close>

fun del_existing :: "(string \<Rightarrow> bool) \<Rightarrow> string \<Rightarrow> string list \<Rightarrow> string list" where
  "del_existing ex base [] = []"
| "del_existing ex base (ext # exts) =
     (if ex (base @ ext) then [del_line (base @ ext)] else []) @ del_existing ex base exts"

text \<open>
  The second loop (source lines 91 to 93) writes one deletion per extension.
\<close>

fun del_all :: "string \<Rightarrow> string list \<Rightarrow> string list" where
  "del_all base [] = []"
| "del_all base (ext # exts) = del_line (base @ ext) # del_all base exts"

text \<open>
  The strings passed to \<^verbatim>\<open>f.write\<close> inside the \<^verbatim>\<open>with\<close> block, in order
  (source lines 79 to 102). \<open>ex\<close> is \<^verbatim>\<open>os.path.exists\<close> at that moment.
\<close>

definition script_writes ::
  "(string \<Rightarrow> bool) \<Rightarrow> string \<Rightarrow> string \<Rightarrow> string \<Rightarrow> string \<Rightarrow> string \<Rightarrow> string list" where
  "script_writes ex current_idb_base binary_idb_base ida_exe input_path batch_path =
     [echo_off_line, delay_line]
     @ del_existing ex current_idb_base extensions
     @ (if current_idb_base \<noteq> binary_idb_base then del_all binary_idb_base extensions else [])
     @ [start_line ida_exe input_path, self_del_line batch_path]"

subsection \<open>The handler\<close>

text \<open>
  The inner handler (source lines 115 to 118) and the outer one (lines 126 to 129).
\<close>

definition inner_except :: "string \<Rightarrow> world \<Rightarrow> outcome \<times> world" where
  "inner_except e w =
     (Returns 0,
      warning (''Failed to create reload script: '' @ e)
        (print (''[Reload] Error creating reload script: '' @ e) w))"

definition outer_except :: "string \<Rightarrow> world \<Rightarrow> outcome \<times> world" where
  "outer_except e w =
     (Returns 0,
      warning (''Error during reload: '' @ e)
        (print (''[Reload] Exception occurred: '' @ e) w))"

text \<open>
  The \<^verbatim>\<open>with open(batch_path, 'w') as f\<close> block. \<^verbatim>\<open>open\<close> creates the file or
  truncates it. When the \<open>k\<close>-th write raises, leaving the block closes the file,
  which holds what the writes before it wrote. The result is the exception, if any.
\<close>

definition write_script ::
  "host \<Rightarrow> string \<Rightarrow> string \<Rightarrow> string \<Rightarrow> string \<Rightarrow> world \<Rightarrow> string option \<times> world" where
  "write_script h current_idb_base binary_idb_base input_path batch_path w =
     (case open_error h of
        Some e \<Rightarrow> (Some e, w)
      | None \<Rightarrow>
          (let w1 = w\<lparr>files := (files w)(batch_path \<mapsto> [])\<rparr>;
               writes = script_writes (path_exists w1) current_idb_base binary_idb_base
                          (sys_executable h) input_path batch_path
           in case write_error h of
                None \<Rightarrow> (None, w1\<lparr>files := (files w1)(batch_path \<mapsto> concat writes)\<rparr>)
              | Some (k, e) \<Rightarrow>
                  if k < length writes
                  then (Some e, w1\<lparr>files := (files w1)(batch_path \<mapsto> concat (take k writes))\<rparr>)
                  else (None, w1\<lparr>files := (files w1)(batch_path \<mapsto> concat writes)\<rparr>)))"

text \<open>
  The inner \<^verbatim>\<open>try\<close> block (source lines 71 to 118), entered with a database path.
\<close>

definition reload_with_script :: "host \<Rightarrow> string \<Rightarrow> string \<Rightarrow> world \<Rightarrow> outcome \<times> world" where
  "reload_with_script h input_path idb_path w =
     (let current_idb_base = fst (splitext (os_path h) idb_path);
          binary_idb_base = fst (splitext (os_path h) input_path);
          batch_path = current_idb_base @ ''_reload.bat''
      in case write_script h current_idb_base binary_idb_base input_path batch_path w of
           (Some e, w1) \<Rightarrow> inner_except e w1
         | (None, w1) \<Rightarrow>
             (let w2 = print (''[Reload] Created reload script: '' @ batch_path) w1
              in case popen_error h of
                   Some e \<Rightarrow> inner_except e w2
                 | None \<Rightarrow>
                     (let w3 = w2\<lparr>spawned := spawned w2 @
                                 [\<lparr>args = [batch_path], shell = True,
                                   creationflags =
                                     (if os_name h = ''nt'' then CREATE_NO_WINDOW else 0)\<rparr>]\<rparr>;
                          w4 = print ''[Reload] Closing IDA...'' w3
                      in (Exits 0, w4\<lparr>host_running := False\<rparr>))))"

definition no_input_path :: "world \<Rightarrow> outcome \<times> world" where
  "no_input_path w =
     (Returns 0,
      warning ''Cannot determine the input file path!''
        (print ''[Reload] Error: Cannot determine input file path'' w))"

definition no_idb_path :: "world \<Rightarrow> outcome \<times> world" where
  "no_idb_path w =
     (Returns 0,
      warning ''Could not determine IDB path''
        (print ''[Reload] Could not determine IDB path'' w))"

text \<open>
  From the confirmation on (source lines 51 to 124).
\<close>

definition confirm_and_reload :: "host \<Rightarrow> string \<Rightarrow> world \<Rightarrow> outcome \<times> world" where
  "confirm_and_reload h input_path w =
     (case ask_yn h of
        Inl e \<Rightarrow> outer_except e w
      | Inr result \<Rightarrow>
          if result \<noteq> ASKBTN_YES then (Returns 1, print ''[Reload] Cancelled by user'' w)
          else
            (let w1 = print ''[Reload] Auto-reload enabled - no confirmation needed'' w
             in case get_path_idb h of
                  Inl e \<Rightarrow> outer_except e w1
                | Inr None \<Rightarrow> no_idb_path w1
                | Inr (Some idb_path) \<Rightarrow>
                    if idb_path = [] then no_idb_path w1
                    else reload_with_script h input_path idb_path w1))"

text \<open>
  \<^verbatim>\<open>activate\<close> (source lines 32 to 129). \<^verbatim>\<open>not input_path\<close> holds for \<^verbatim>\<open>None\<close> and
  for the empty string.
\<close>

definition activate :: "host \<Rightarrow> world \<Rightarrow> outcome \<times> world" where
  "activate h w =
     (case get_input_file_path h of
        Inl e \<Rightarrow> outer_except e w
      | Inr None \<Rightarrow> no_input_path w
      | Inr (Some input_path) \<Rightarrow>
          if input_path = [] then no_input_path w
          else if \<not> path_exists w input_path then
            (Returns 0,
             warning (''File not found: '' @ input_path)
               (print (''[Reload] Error: File not found: '' @ input_path) w))
          else
            confirm_and_reload h input_path
              (print (''[Reload] Reloading binary from: '' @ input_path) w))"

subsection \<open>Names for what the handler computes\<close>

text \<open>
  The path of the script and the strings written to it, for a host \<open>h\<close> whose input
  path is \<open>input_path\<close> and whose database path is \<open>idb_path\<close>, when the files on disk are
  those of \<open>w\<close> (source lines 73 to 77 and 79 to 102).
\<close>

definition batch_path_of :: "host \<Rightarrow> string \<Rightarrow> string" where
  "batch_path_of h idb_path = fst (splitext (os_path h) idb_path) @ ''_reload.bat''"

definition reload_script :: "host \<Rightarrow> world \<Rightarrow> string \<Rightarrow> string \<Rightarrow> string list" where
  "reload_script h w input_path idb_path =
     script_writes (path_exists w) (fst (splitext (os_path h) idb_path))
       (fst (splitext (os_path h) input_path)) (sys_executable h) input_path
       (batch_path_of h idb_path)"

definition launch :: "host \<Rightarrow> string \<Rightarrow> popen_call" where
  "launch h idb_path =
     \<lparr>args = [batch_path_of h idb_path], shell = True,
      creationflags = (if os_name h = ''nt'' then CREATE_NO_WINDOW else 0)\<rparr>"

text \<open>
  No \<^verbatim>\<open>f.write\<close> among the first \<open>n\<close> raises.
\<close>

definition writes_complete :: "host \<Rightarrow> nat \<Rightarrow> bool" where
  "writes_complete h n = (case write_error h of None \<Rightarrow> True | Some (k, e) \<Rightarrow> \<not> k < n)"

text \<open>
  A world with the creation flags of its spawned processes blanked: two worlds that
  agree under \<open>without_flags\<close> differ at most in those flags.
\<close>

definition without_flags :: "world \<Rightarrow> world" where
  "without_flags w = w\<lparr>spawned := map (\<lambda>c. c\<lparr>creationflags := 0\<rparr>) (spawned w)\<rparr>"

subsection \<open>A sample session\<close>

text \<open>
  The binary \<^verbatim>\<open>/tmp/sample.bin\<close> is open, its database is \<^verbatim>\<open>/tmp/sample.i64\<close>, the
  user answers yes and no call raises.
\<close>

definition host_sample :: host where
  "host_sample =
     \<lparr>get_input_file_path = Inr (Some ''/tmp/sample.bin''),
      ask_yn = Inr ASKBTN_YES,
      get_path_idb = Inr (Some ''/tmp/sample.i64''),
      sys_executable = ''/opt/ida/ida64'',
      os_name = ''posix'',
      os_path = Posixpath,
      open_error = None,
      write_error = None,
      popen_error = None\<rparr>"

definition world_sample :: world where
  "world_sample =
     \<lparr>files = [''/tmp/sample.bin'' \<mapsto> ''ELF'', ''/tmp/sample.i64'' \<mapsto> ''IDA2'',
               ''/tmp/sample.id0'' \<mapsto> ''B-tree''],
      spawned = [], host_running = True, console = [], warnings = []\<rparr>"

subsection \<open>One session read on two platforms\<close>





section \<open>Properties\<close>

subsection \<open>What printing and warning leave alone\<close>

declare splitext.simps [simp del]

lemma print_simps [simp]:
  "files (print l w) = files w"
  "spawned (print l w) = spawned w"
  "host_running (print l w) = host_running w"
  "warnings (print l w) = warnings w"
  "console (print l w) = console w @ [l]"
  by (simp_all add: print_def)

lemma warning_simps [simp]:
  "files (warning m w) = files w"
  "spawned (warning m w) = spawned w"
  "host_running (warning m w) = host_running w"
  "warnings (warning m w) = warnings w @ [m]"
  "console (warning m w) = console w"
  by (simp_all add: warning_def)

lemma path_exists_print [simp]: "path_exists (print l w) = path_exists w"
  by (simp add: path_exists_def fun_eq_iff)

lemma sample_facts:
  "get_input_file_path host_sample = Inr (Some ''/tmp/sample.bin'')"
  "ask_yn host_sample = Inr ASKBTN_YES"
  "get_path_idb host_sample = Inr (Some ''/tmp/sample.i64'')"
  "sys_executable host_sample = ''/opt/ida/ida64''"
  "os_name host_sample = ''posix''"
  "os_path host_sample = Posixpath"
  "open_error host_sample = None"
  "write_error host_sample = None"
  "popen_error host_sample = None"
  "spawned world_sample = []"
  "host_running world_sample"
  "console world_sample = []"
  "warnings world_sample = []"
  by (simp_all add: host_sample_def world_sample_def)

lemma sample_exists:
  "path_exists world_sample ''/tmp/sample.bin''"
  "path_exists world_sample ''/tmp/sample.i64''"
  "path_exists world_sample ''/tmp/sample.id0''"
  "\<not> path_exists world_sample ''/tmp/sample.id1''"
  "\<not> path_exists world_sample ''/tmp/sample.id2''"
  "\<not> path_exists world_sample ''/tmp/sample.nam''"
  "\<not> path_exists world_sample ''/tmp/sample.til''"
  "\<not> path_exists world_sample ''/tmp/missing.bin''"
  by (simp_all add: path_exists_def world_sample_def)

lemma sample_stems:
  "splitext Posixpath ''/tmp/sample.i64'' = (''/tmp/sample'', ''.i64'')"
  "splitext Posixpath ''/tmp/sample.bin'' = (''/tmp/sample'', ''.bin'')"
  by (simp_all add: splitext.simps splitext_generic_def rfind_def)

subsection \<open>The checks before the confirmation\<close>

text \<open>
  C7. When the host returns no input path (\<^verbatim>\<open>None\<close> or the empty string), \<open>activate\<close>
  returns 0, the user is warned that the input file path cannot be determined, no file
  changes, nothing is spawned and the host keeps running.
\<close>

theorem activate_without_input_path:
  assumes "get_input_file_path h = Inr None \<or> get_input_file_path h = Inr (Some [])"
  shows "fst (activate h w) = Returns 0 \<and>
         warnings (snd (activate h w)) = warnings w @ [''Cannot determine the input file path!''] \<and>
         files (snd (activate h w)) = files w \<and>
         spawned (snd (activate h w)) = spawned w \<and>
         host_running (snd (activate h w)) = host_running w"
  using assms by (auto simp: activate_def no_input_path_def)

theorem activate_without_input_path_witness:
  "fst (activate (host_sample\<lparr>get_input_file_path := Inr None\<rparr>) world_sample) = Returns 0 \<and>
   warnings (snd (activate (host_sample\<lparr>get_input_file_path := Inr None\<rparr>) world_sample)) =
     [''Cannot determine the input file path!''] \<and>
   files (snd (activate (host_sample\<lparr>get_input_file_path := Inr None\<rparr>) world_sample)) =
     files world_sample \<and>
   spawned (snd (activate (host_sample\<lparr>get_input_file_path := Inr None\<rparr>) world_sample)) = [] \<and>
   host_running (snd (activate (host_sample\<lparr>get_input_file_path := Inr None\<rparr>) world_sample))"
  using activate_without_input_path [of "host_sample\<lparr>get_input_file_path := Inr None\<rparr>" world_sample]
  by (simp add: sample_facts)

text \<open>
  C8. When the input path does not exist on disk, \<open>activate\<close> returns 0, the user is
  warned that the file was not found, no file is created or changed, nothing is spawned
  and the host keeps running.
\<close>

theorem activate_missing_input_file:
  assumes "get_input_file_path h = Inr (Some input_path)"
    and "input_path \<noteq> []"
    and "\<not> path_exists w input_path"
  shows "fst (activate h w) = Returns 0 \<and>
         warnings (snd (activate h w)) = warnings w @ [''File not found: '' @ input_path] \<and>
         files (snd (activate h w)) = files w \<and>
         spawned (snd (activate h w)) = spawned w \<and>
         host_running (snd (activate h w)) = host_running w"
  using assms by (simp add: activate_def)

theorem activate_missing_input_file_witness:
  "fst (activate (host_sample\<lparr>get_input_file_path := Inr (Some ''/tmp/missing.bin'')\<rparr>) world_sample)
     = Returns 0 \<and>
   warnings (snd (activate (host_sample\<lparr>get_input_file_path := Inr (Some ''/tmp/missing.bin'')\<rparr>)
     world_sample)) = [''File not found: /tmp/missing.bin''] \<and>
   files (snd (activate (host_sample\<lparr>get_input_file_path := Inr (Some ''/tmp/missing.bin'')\<rparr>)
     world_sample)) = files world_sample \<and>
   spawned (snd (activate (host_sample\<lparr>get_input_file_path := Inr (Some ''/tmp/missing.bin'')\<rparr>)
     world_sample)) = [] \<and>
   host_running (snd (activate (host_sample\<lparr>get_input_file_path := Inr (Some ''/tmp/missing.bin'')\<rparr>)
     world_sample))"
  using activate_missing_input_file
    [of "host_sample\<lparr>get_input_file_path := Inr (Some ''/tmp/missing.bin'')\<rparr>"
        "''/tmp/missing.bin''" world_sample]
  by (simp add: sample_facts sample_exists)

subsection \<open>The confirmation and the database path\<close>

lemma activate_asks:
  assumes "get_input_file_path h = Inr (Some input_path)"
    and "input_path \<noteq> []"
    and "path_exists w input_path"
  shows "activate h w =
           confirm_and_reload h input_path (print (''[Reload] Reloading binary from: '' @ input_path) w)"
  using assms by (simp add: activate_def)

text \<open>
  C4. When the user answers anything but yes, \<open>activate\<close> prints that the user
  cancelled and returns 1; no file changes, nothing is spawned, the host keeps running
  and no warning is shown.
\<close>

theorem activate_declined:
  assumes "get_input_file_path h = Inr (Some input_path)"
    and "input_path \<noteq> []"
    and "path_exists w input_path"
    and "ask_yn h = Inr answer"
    and "answer \<noteq> ASKBTN_YES"
  shows "fst (activate h w) = Returns 1 \<and>
         last (console (snd (activate h w))) = ''[Reload] Cancelled by user'' \<and>
         files (snd (activate h w)) = files w \<and>
         spawned (snd (activate h w)) = spawned w \<and>
         host_running (snd (activate h w)) = host_running w \<and>
         warnings (snd (activate h w)) = warnings w"
  using assms by (simp add: activate_asks confirm_and_reload_def)

theorem activate_declined_witness:
  "fst (activate (host_sample\<lparr>ask_yn := Inr ASKBTN_NO\<rparr>) world_sample) = Returns 1 \<and>
   last (console (snd (activate (host_sample\<lparr>ask_yn := Inr ASKBTN_NO\<rparr>) world_sample))) =
     ''[Reload] Cancelled by user'' \<and>
   files (snd (activate (host_sample\<lparr>ask_yn := Inr ASKBTN_NO\<rparr>) world_sample)) =
     files world_sample \<and>
   spawned (snd (activate (host_sample\<lparr>ask_yn := Inr ASKBTN_NO\<rparr>) world_sample)) = [] \<and>
   host_running (snd (activate (host_sample\<lparr>ask_yn := Inr ASKBTN_NO\<rparr>) world_sample)) \<and>
   warnings (snd (activate (host_sample\<lparr>ask_yn := Inr ASKBTN_NO\<rparr>) world_sample)) = []"
  using activate_declined
    [of "host_sample\<lparr>ask_yn := Inr ASKBTN_NO\<rparr>" "''/tmp/sample.bin''" world_sample ASKBTN_NO]
  by (simp add: sample_facts sample_exists)

text \<open>
  C9. When the user answers yes and the host returns no database path (\<^verbatim>\<open>None\<close> or
  the empty string), \<open>activate\<close> returns 0, the user is warned that the IDB path could
  not be determined, no file changes, nothing is spawned and the host keeps running.
\<close>

theorem activate_without_idb_path:
  assumes "get_input_file_path h = Inr (Some input_path)"
    and "input_path \<noteq> []"
    and "path_exists w input_path"
    and "ask_yn h = Inr ASKBTN_YES"
    and "get_path_idb h = Inr None \<or> get_path_idb h = Inr (Some [])"
  shows "fst (activate h w) = Returns 0 \<and>
         warnings (snd (activate h w)) = warnings w @ [''Could not determine IDB path''] \<and>
         files (snd (activate h w)) = files w \<and>
         spawned (snd (activate h w)) = spawned w \<and>
         host_running (snd (activate h w)) = host_running w"
  using assms by (auto simp: activate_asks confirm_and_reload_def no_idb_path_def)

theorem activate_without_idb_path_witness:
  "fst (activate (host_sample\<lparr>get_path_idb := Inr None\<rparr>) world_sample) = Returns 0 \<and>
   warnings (snd (activate (host_sample\<lparr>get_path_idb := Inr None\<rparr>) world_sample)) =
     [''Could not determine IDB path''] \<and>
   files (snd (activate (host_sample\<lparr>get_path_idb := Inr None\<rparr>) world_sample)) =
     files world_sample \<and>
   spawned (snd (activate (host_sample\<lparr>get_path_idb := Inr None\<rparr>) world_sample)) = [] \<and>
   host_running (snd (activate (host_sample\<lparr>get_path_idb := Inr None\<rparr>) world_sample))"
  using activate_without_idb_path
    [of "host_sample\<lparr>get_path_idb := Inr None\<rparr>" "''/tmp/sample.bin''" world_sample]
  by (simp add: sample_facts sample_exists)

subsection \<open>Writing the script\<close>

lemma del_existing_cong:
  "(\<And>ext. ext \<in> set exts \<Longrightarrow> ex (base @ ext) = ex' (base @ ext)) \<Longrightarrow>
   del_existing ex base exts = del_existing ex' base exts"
  by (induction exts) auto

lemma extension_not_reload_suffix: "ext \<in> set extensions \<Longrightarrow> ext \<noteq> ''_reload.bat''"
  by (auto simp: extensions_def)

text \<open>
  Opening the script creates no file that the first loop then looks for.
\<close>

lemma path_exists_after_open:
  "ext \<in> set extensions \<Longrightarrow>
   path_exists (w\<lparr>files := (files w)(S @ ''_reload.bat'' \<mapsto> c)\<rparr>) (S @ ext) = path_exists w (S @ ext)"
  using extension_not_reload_suffix [of ext] by (simp add: path_exists_def)

lemma script_writes_after_open:
  "script_writes (path_exists (w\<lparr>files := (files w)(S @ ''_reload.bat'' \<mapsto> c)\<rparr>)) S T exe B bp =
   script_writes (path_exists w) S T exe B bp"
  unfolding script_writes_def
  using del_existing_cong
    [of extensions "path_exists (w\<lparr>files := (files w)(S @ ''_reload.bat'' \<mapsto> c)\<rparr>)" S "path_exists w"]
  by (simp add: path_exists_after_open)

lemma reload_script_print [simp]: "reload_script h (print l w) B D = reload_script h w B D"
  by (simp add: reload_script_def)

lemma write_script_open_fails:
  "open_error h = Some e \<Longrightarrow> write_script h S T B bp w = (Some e, w)"
  by (simp add: write_script_def)

lemma write_script_write_fails:
  assumes "open_error h = None"
    and "write_error h = Some (k, e)"
    and "k < length (reload_script h w B D)"
  shows "write_script h (fst (splitext (os_path h) D)) (fst (splitext (os_path h) B)) B
           (batch_path_of h D) w =
         (Some e, w\<lparr>files := (files w)(batch_path_of h D \<mapsto> concat (take k (reload_script h w B D)))\<rparr>)"
  using assms
  by (simp add: write_script_def Let_def batch_path_of_def reload_script_def script_writes_after_open)

lemma write_script_completes:
  assumes "open_error h = None"
    and "writes_complete h (length (reload_script h w B D))"
  shows "write_script h (fst (splitext (os_path h) D)) (fst (splitext (os_path h) B)) B
           (batch_path_of h D) w =
         (None, w\<lparr>files := (files w)(batch_path_of h D \<mapsto> concat (reload_script h w B D))\<rparr>)"
  using assms
  by (auto simp: write_script_def Let_def batch_path_of_def reload_script_def script_writes_after_open
      writes_complete_def split: option.splits prod.splits)

lemma reload_open_fails:
  "open_error h = Some e \<Longrightarrow> reload_with_script h B D w = inner_except e w"
  by (simp add: reload_with_script_def Let_def write_script_open_fails)

lemma reload_write_fails:
  assumes "open_error h = None"
    and "write_error h = Some (k, e)"
    and "k < length (reload_script h w B D)"
  shows "reload_with_script h B D w =
         inner_except e
           (w\<lparr>files := (files w)(batch_path_of h D \<mapsto> concat (take k (reload_script h w B D)))\<rparr>)"
  using write_script_write_fails [OF assms]
  by (simp add: reload_with_script_def Let_def batch_path_of_def)

lemma reload_popen_fails:
  assumes "open_error h = None"
    and "writes_complete h (length (reload_script h w B D))"
    and "popen_error h = Some e"
  shows "reload_with_script h B D w =
         inner_except e
           (print (''[Reload] Created reload script: '' @ batch_path_of h D)
              (w\<lparr>files := (files w)(batch_path_of h D \<mapsto> concat (reload_script h w B D))\<rparr>))"
  using write_script_completes [OF assms(1,2)] assms(3)
  by (simp add: reload_with_script_def Let_def batch_path_of_def)

lemma reload_succeeds:
  assumes "open_error h = None"
    and "writes_complete h (length (reload_script h w B D))"
    and "popen_error h = None"
  shows "reload_with_script h B D w =
         (Exits 0,
          (print ''[Reload] Closing IDA...''
             ((print (''[Reload] Created reload script: '' @ batch_path_of h D)
                 (w\<lparr>files := (files w)(batch_path_of h D \<mapsto> concat (reload_script h w B D))\<rparr>))
              \<lparr>spawned := spawned w @ [launch h D]\<rparr>))
          \<lparr>host_running := False\<rparr>)"
  using write_script_completes [OF assms(1,2)] assms(3)
  by (simp add: reload_with_script_def Let_def batch_path_of_def launch_def)

lemma activate_confirmed:
  assumes "get_input_file_path h = Inr (Some B)"
    and "B \<noteq> []"
    and "path_exists w B"
    and "ask_yn h = Inr ASKBTN_YES"
    and "get_path_idb h = Inr (Some D)"
    and "D \<noteq> []"
  shows "activate h w =
         reload_with_script h B D
           (print ''[Reload] Auto-reload enabled - no confirmation needed''
              (print (''[Reload] Reloading binary from: '' @ B) w))"
  using assms by (simp add: activate_asks confirm_and_reload_def Let_def)

subsection \<open>Every way out of the handler\<close>

lemma inner_except_simps [simp]:
  "fst (inner_except e w) = Returns 0"
  "files (snd (inner_except e w)) = files w"
  "spawned (snd (inner_except e w)) = spawned w"
  "host_running (snd (inner_except e w)) = host_running w"
  "warnings (snd (inner_except e w)) = warnings w @ [''Failed to create reload script: '' @ e]"
  by (simp_all add: inner_except_def)

lemma outer_except_simps [simp]:
  "fst (outer_except e w) = Returns 0"
  "files (snd (outer_except e w)) = files w"
  "spawned (snd (outer_except e w)) = spawned w"
  "host_running (snd (outer_except e w)) = host_running w"
  "warnings (snd (outer_except e w)) = warnings w @ [''Error during reload: '' @ e]"
  by (simp_all add: outer_except_def)

lemma no_path_simps [simp]:
  "fst (no_input_path w) = Returns 0"
  "files (snd (no_input_path w)) = files w"
  "spawned (snd (no_input_path w)) = spawned w"
  "host_running (snd (no_input_path w)) = host_running w"
  "fst (no_idb_path w) = Returns 0"
  "files (snd (no_idb_path w)) = files w"
  "spawned (snd (no_idb_path w)) = spawned w"
  "host_running (snd (no_idb_path w)) = host_running w"
  by (simp_all add: no_input_path_def no_idb_path_def)

lemma batch_path_suffix: "suffix ''_reload.bat'' (batch_path_of h D)"
  by (simp add: batch_path_of_def suffix_def)

text \<open>
  The inner block either goes all the way (every I/O call succeeds, the complete script
  is on disk, it is spawned and the host exits), or returns 0 after the inner handler,
  with nothing spawned, the host running, and no file but the script touched.
\<close>

lemma reload_with_script_cases:
  "(open_error h = None \<and> writes_complete h (length (reload_script h w B D)) \<and>
    popen_error h = None \<and>
    fst (reload_with_script h B D w) = Exits 0 \<and>
    \<not> host_running (snd (reload_with_script h B D w)) \<and>
    spawned (snd (reload_with_script h B D w)) = spawned w @ [launch h D] \<and>
    files (snd (reload_with_script h B D w)) =
      (files w)(batch_path_of h D \<mapsto> concat (reload_script h w B D)))
   \<or>
   (\<not> (open_error h = None \<and> writes_complete h (length (reload_script h w B D)) \<and>
        popen_error h = None) \<and>
    fst (reload_with_script h B D w) = Returns 0 \<and>
    host_running (snd (reload_with_script h B D w)) = host_running w \<and>
    spawned (snd (reload_with_script h B D w)) = spawned w \<and>
    (\<exists>e. last (warnings (snd (reload_with_script h B D w))) =
           ''Failed to create reload script: '' @ e) \<and>
    (files (snd (reload_with_script h B D w)) = files w \<or>
     (\<exists>k \<le> length (reload_script h w B D).
        files (snd (reload_with_script h B D w)) =
          (files w)(batch_path_of h D \<mapsto> concat (take k (reload_script h w B D))))))"
proof (cases "open_error h")
  case (Some e)
  then show ?thesis
    by (simp add: reload_open_fails)
next
  case None
  let ?script = "reload_script h w B D"
  let ?r = "reload_with_script h B D w"
  show ?thesis
  proof (cases "writes_complete h (length ?script)")
    case False
    then obtain k e where k: "write_error h = Some (k, e)" "k < length ?script"
      by (auto simp: writes_complete_def split: option.splits)
    have r: "?r = inner_except e (w\<lparr>files := (files w)(batch_path_of h D \<mapsto> concat (take k ?script))\<rparr>)"
      using None k by (rule reload_write_fails)
    have "files (snd ?r) = (files w)(batch_path_of h D \<mapsto> concat (take k ?script))"
      by (simp add: r)
    with k(2) have "\<exists>k \<le> length ?script.
        files (snd ?r) = (files w)(batch_path_of h D \<mapsto> concat (take k ?script))"
      using less_imp_le_nat by blast
    moreover have "fst ?r = Returns 0" "host_running (snd ?r) = host_running w"
      "spawned (snd ?r) = spawned w"
      "last (warnings (snd ?r)) = ''Failed to create reload script: '' @ e"
      by (simp_all add: r)
    ultimately show ?thesis
      using False by blast
  next
    case True
    show ?thesis
    proof (cases "popen_error h")
      case (Some e)
      have r: "?r = inner_except e
            (print (''[Reload] Created reload script: '' @ batch_path_of h D)
              (w\<lparr>files := (files w)(batch_path_of h D \<mapsto> concat ?script)\<rparr>))"
        using None True Some by (rule reload_popen_fails)
      have "files (snd ?r) = (files w)(batch_path_of h D \<mapsto> concat (take (length ?script) ?script))"
        by (simp add: r)
      then have "\<exists>k \<le> length ?script.
          files (snd ?r) = (files w)(batch_path_of h D \<mapsto> concat (take k ?script))"
        using order_refl by blast
      moreover have "fst ?r = Returns 0" "host_running (snd ?r) = host_running w"
        "spawned (snd ?r) = spawned w"
        "last (warnings (snd ?r)) = ''Failed to create reload script: '' @ e"
        by (simp_all add: r)
      ultimately show ?thesis
        using Some by auto
    next
      case popen: None
      with None True show ?thesis
        by (simp add: reload_succeeds)
    qed
  qed
qed

text \<open>
  The same for the whole handler: it exits the host only when every step succeeded.
\<close>

lemma activate_cases:
  "(\<exists>B D. get_input_file_path h = Inr (Some B) \<and> B \<noteq> [] \<and> path_exists w B \<and>
      ask_yn h = Inr ASKBTN_YES \<and> get_path_idb h = Inr (Some D) \<and> D \<noteq> [] \<and>
      open_error h = None \<and> writes_complete h (length (reload_script h w B D)) \<and>
      popen_error h = None \<and>
      fst (activate h w) = Exits 0 \<and>
      \<not> host_running (snd (activate h w)) \<and>
      spawned (snd (activate h w)) = spawned w @ [launch h D] \<and>
      files (snd (activate h w)) = (files w)(batch_path_of h D \<mapsto> concat (reload_script h w B D)))
   \<or>
   ((fst (activate h w) = Returns 0 \<or> fst (activate h w) = Returns 1) \<and>
    host_running (snd (activate h w)) = host_running w \<and>
    spawned (snd (activate h w)) = spawned w \<and>
    (\<forall>p. \<not> suffix ''_reload.bat'' p \<longrightarrow> files (snd (activate h w)) p = files w p))"
proof (cases "get_input_file_path h")
  case (Inl e)
  then show ?thesis
    by (simp add: activate_def)
next
  case (Inr input_opt)
  show ?thesis
  proof (cases "\<exists>B. input_opt = Some B \<and> B \<noteq> [] \<and> path_exists w B")
    case False
    with Inr show ?thesis
      by (cases input_opt) (auto simp: activate_def)
  next
    case True
    then obtain B where B: "get_input_file_path h = Inr (Some B)" "B \<noteq> []" "path_exists w B"
      using Inr by auto
    let ?w0 = "print (''[Reload] Reloading binary from: '' @ B) w"
    have asks: "activate h w = confirm_and_reload h B ?w0"
      using B by (rule activate_asks)
    show ?thesis
    proof (cases "\<exists>D. ask_yn h = Inr ASKBTN_YES \<and> get_path_idb h = Inr (Some D) \<and> D \<noteq> []")
      case False
      then show ?thesis
        unfolding asks
        by (auto simp: confirm_and_reload_def Let_def split: sum.splits option.splits)
    next
      case True
      then obtain D where D: "ask_yn h = Inr ASKBTN_YES" "get_path_idb h = Inr (Some D)" "D \<noteq> []"
        by auto
      let ?w1 = "print ''[Reload] Auto-reload enabled - no confirmation needed'' ?w0"
      have a: "activate h w = reload_with_script h B D ?w1"
        using B D by (rule activate_confirmed)
      have frame: "files w' = files w \<or>
          (\<exists>k \<le> length (reload_script h w B D).
             files w' = (files w)(batch_path_of h D \<mapsto> concat (take k (reload_script h w B D)))) \<Longrightarrow>
          \<forall>p. \<not> suffix ''_reload.bat'' p \<longrightarrow> files w' p = files w p" for w' :: world
        using batch_path_suffix [of h D] by auto
      from reload_with_script_cases [of h ?w1 B D] show ?thesis
        unfolding a using B D frame [of "snd (reload_with_script h B D ?w1)"] by auto
    qed
  qed
qed

subsection \<open>The sample session, evaluated\<close>

lemma fault_fields_irrelevant [simp]:
  "batch_path_of (h\<lparr>open_error := oe\<rparr>) D = batch_path_of h D"
  "batch_path_of (h\<lparr>write_error := we\<rparr>) D = batch_path_of h D"
  "batch_path_of (h\<lparr>popen_error := pe\<rparr>) D = batch_path_of h D"
  "batch_path_of (h\<lparr>os_name := n\<rparr>) D = batch_path_of h D"
  "reload_script (h\<lparr>open_error := oe\<rparr>) w B D = reload_script h w B D"
  "reload_script (h\<lparr>write_error := we\<rparr>) w B D = reload_script h w B D"
  "reload_script (h\<lparr>popen_error := pe\<rparr>) w B D = reload_script h w B D"
  "reload_script (h\<lparr>os_name := n\<rparr>) w B D = reload_script h w B D"
  by (simp_all add: batch_path_of_def reload_script_def)

lemma sample_batch_path: "batch_path_of host_sample ''/tmp/sample.i64'' = ''/tmp/sample_reload.bat''"
  by (simp add: batch_path_of_def sample_facts sample_stems)

lemma sample_script:
  "reload_script host_sample world_sample ''/tmp/sample.bin'' ''/tmp/sample.i64'' =
     [echo_off_line, delay_line, del_line ''/tmp/sample.id0'', del_line ''/tmp/sample.i64'',
      start_line ''/opt/ida/ida64'' ''/tmp/sample.bin'', self_del_line ''/tmp/sample_reload.bat'']"
  by (simp add: reload_script_def script_writes_def sample_batch_path sample_facts sample_stems
      extensions_def sample_exists)

subsection \<open>Failure before the launch\<close>

text \<open>
  C1. When a step before the exit fails, \<open>activate\<close> returns to its caller instead of
  exiting: the host keeps running, nothing is spawned, and no file other than the
  script (a path ending in \<^verbatim>\<open>_reload.bat\<close>) is created or changed. The failing steps are:
  the input path (the call raises, or returns \<^verbatim>\<open>None\<close> or the empty string), the
  existence check, the confirmation dialog raising, the database path (the call raises,
  or returns \<^verbatim>\<open>None\<close> or the empty string), and the script (\<^verbatim>\<open>open\<close> raises, a write
  raises, or \<^verbatim>\<open>Popen\<close> raises).
\<close>

theorem activate_failure_aborts_before_termination:
  assumes "get_input_file_path h = Inl e
         \<or> get_input_file_path h = Inr None
         \<or> get_input_file_path h = Inr (Some [])
         \<or> (get_input_file_path h = Inr (Some B) \<and> \<not> path_exists w B)
         \<or> ask_yn h = Inl e
         \<or> get_path_idb h = Inl e
         \<or> get_path_idb h = Inr None
         \<or> get_path_idb h = Inr (Some [])
         \<or> open_error h = Some e
         \<or> (get_input_file_path h = Inr (Some B) \<and> get_path_idb h = Inr (Some D) \<and>
             write_error h = Some (k, e) \<and> k < length (reload_script h w B D))
         \<or> popen_error h = Some e"
  shows "(fst (activate h w) = Returns 0 \<or> fst (activate h w) = Returns 1) \<and>
         host_running (snd (activate h w)) = host_running w \<and>
         spawned (snd (activate h w)) = spawned w \<and>
         (\<forall>p. \<not> suffix ''_reload.bat'' p \<longrightarrow> files (snd (activate h w)) p = files w p)"
proof -
  have "\<not> (\<exists>B D. get_input_file_path h = Inr (Some B) \<and> B \<noteq> [] \<and> path_exists w B \<and>
      ask_yn h = Inr ASKBTN_YES \<and> get_path_idb h = Inr (Some D) \<and> D \<noteq> [] \<and>
      open_error h = None \<and> writes_complete h (length (reload_script h w B D)) \<and>
      popen_error h = None \<and>
      fst (activate h w) = Exits 0 \<and>
      \<not> host_running (snd (activate h w)) \<and>
      spawned (snd (activate h w)) = spawned w @ [launch h D] \<and>
      files (snd (activate h w)) = (files w)(batch_path_of h D \<mapsto> concat (reload_script h w B D)))"
    using assms by (auto simp: writes_complete_def)
  with activate_cases [of h w] show ?thesis
    by blast
qed

theorem activate_failure_aborts_before_termination_witness:
  "fst (activate (host_sample\<lparr>open_error := Some ''Permission denied''\<rparr>) world_sample) = Returns 0 \<and>
   host_running (snd (activate (host_sample\<lparr>open_error := Some ''Permission denied''\<rparr>) world_sample)) \<and>
   spawned (snd (activate (host_sample\<lparr>open_error := Some ''Permission denied''\<rparr>) world_sample)) = [] \<and>
   files (snd (activate (host_sample\<lparr>open_error := Some ''Permission denied''\<rparr>) world_sample))
     ''/tmp/sample.i64'' = Some ''IDA2''"
proof -
  let ?h = "host_sample\<lparr>open_error := Some ''Permission denied''\<rparr>"
  have failing: "open_error ?h = Some ''Permission denied''"
    by simp
  have a: "activate ?h world_sample =
      reload_with_script ?h ''/tmp/sample.bin'' ''/tmp/sample.i64''
        (print ''[Reload] Auto-reload enabled - no confirmation needed''
           (print (''[Reload] Reloading binary from: '' @ ''/tmp/sample.bin'') world_sample))"
    by (rule activate_confirmed) (simp_all add: sample_facts sample_exists)
  have r: "fst (activate ?h world_sample) = Returns 0"
    unfolding a by (simp add: reload_open_fails [OF failing])
  have "\<not> suffix ''_reload.bat'' ''/tmp/sample.i64''"
    by (simp add: suffix_to_prefix)
  moreover have "files world_sample ''/tmp/sample.i64'' = Some ''IDA2''"
    by (simp add: world_sample_def)
  ultimately show ?thesis
    using activate_failure_aborts_before_termination
      [of ?h "''Permission denied''" "''/tmp/sample.bin''" world_sample "''/tmp/sample.i64''" 0]
      failing r by (simp add: sample_facts)
qed

subsection \<open>What is left on disk\<close>

text \<open>
  C3 as stated fails: the handlers never remove the script. In the sample session, when
  the fourth write raises, \<open>activate\<close> returns 0 and spawns nothing, and the script
  file stays on disk with the first three writes: no relaunch, one deletion.
\<close>

theorem partial_script_left_on_disk:
  "fst (activate (host_sample\<lparr>write_error := Some (3, ''No space left on device'')\<rparr>) world_sample)
     = Returns 0 \<and>
   spawned (snd (activate (host_sample\<lparr>write_error := Some (3, ''No space left on device'')\<rparr>)
     world_sample)) = [] \<and>
   files (snd (activate (host_sample\<lparr>write_error := Some (3, ''No space left on device'')\<rparr>)
     world_sample)) ''/tmp/sample_reload.bat'' =
     Some (echo_off_line @ delay_line @ del_line ''/tmp/sample.id0'')"
proof -
  let ?h = "host_sample\<lparr>write_error := Some (3, ''No space left on device'')\<rparr>"
  let ?w1 = "print ''[Reload] Auto-reload enabled - no confirmation needed''
           (print (''[Reload] Reloading binary from: '' @ ''/tmp/sample.bin'') world_sample)"
  have a: "activate ?h world_sample = reload_with_script ?h ''/tmp/sample.bin'' ''/tmp/sample.i64'' ?w1"
    by (rule activate_confirmed) (simp_all add: sample_facts sample_exists)
  have "reload_with_script ?h ''/tmp/sample.bin'' ''/tmp/sample.i64'' ?w1 =
      inner_except ''No space left on device''
        (?w1\<lparr>files := (files ?w1)(batch_path_of ?h ''/tmp/sample.i64'' \<mapsto>
           concat (take 3 (reload_script ?h ?w1 ''/tmp/sample.bin'' ''/tmp/sample.i64'')))\<rparr>)"
    by (rule reload_write_fails) (simp_all add: sample_facts sample_script)
  then show ?thesis
    unfolding a by (simp add: sample_facts sample_script sample_batch_path)
qed

text \<open>
  C3, amended. Once the database path is known, \<open>activate\<close> ends in one of four ways.
  When \<^verbatim>\<open>open\<close>, every write and \<^verbatim>\<open>Popen\<close> succeed, the complete script is on disk,
  it is spawned and the host exits. Otherwise \<open>activate\<close> returns 0, nothing is
  spawned and the host keeps running, and the script is not removed: when \<^verbatim>\<open>open\<close>
  raises no file changes; when the \<open>k\<close>-th write raises the script file holds the
  \<open>k\<close> writes before it; when \<^verbatim>\<open>Popen\<close> raises the script file holds the complete
  script.
\<close>

theorem script_launched_or_left_unlaunched:
  assumes "get_input_file_path h = Inr (Some B)"
    and "B \<noteq> []"
    and "path_exists w B"
    and "ask_yn h = Inr ASKBTN_YES"
    and "get_path_idb h = Inr (Some D)"
    and "D \<noteq> []"
  shows "(open_error h = None \<and> writes_complete h (length (reload_script h w B D)) \<and>
          popen_error h = None \<longrightarrow>
            fst (activate h w) = Exits 0 \<and>
            \<not> host_running (snd (activate h w)) \<and>
            spawned (snd (activate h w)) = spawned w @ [launch h D] \<and>
            files (snd (activate h w)) =
              (files w)(batch_path_of h D \<mapsto> concat (reload_script h w B D))) \<and>
         (open_error h \<noteq> None \<longrightarrow>
            fst (activate h w) = Returns 0 \<and>
            host_running (snd (activate h w)) = host_running w \<and>
            spawned (snd (activate h w)) = spawned w \<and>
            files (snd (activate h w)) = files w) \<and>
         (open_error h = None \<and> write_error h = Some (k, e) \<and>
          k < length (reload_script h w B D) \<longrightarrow>
            fst (activate h w) = Returns 0 \<and>
            host_running (snd (activate h w)) = host_running w \<and>
            spawned (snd (activate h w)) = spawned w \<and>
            files (snd (activate h w)) =
              (files w)(batch_path_of h D \<mapsto> concat (take k (reload_script h w B D)))) \<and>
         (open_error h = None \<and> writes_complete h (length (reload_script h w B D)) \<and>
          popen_error h \<noteq> None \<longrightarrow>
            fst (activate h w) = Returns 0 \<and>
            host_running (snd (activate h w)) = host_running w \<and>
            spawned (snd (activate h w)) = spawned w \<and>
            files (snd (activate h w)) =
              (files w)(batch_path_of h D \<mapsto> concat (reload_script h w B D)))"
proof -
  let ?w1 = "print ''[Reload] Auto-reload enabled - no confirmation needed''
           (print (''[Reload] Reloading binary from: '' @ B) w)"
  have a: "activate h w = reload_with_script h B D ?w1"
    using assms by (rule activate_confirmed)
  have w1: "files ?w1 = files w" "spawned ?w1 = spawned w" "host_running ?w1 = host_running w"
    "reload_script h ?w1 B D = reload_script h w B D"
    by simp_all
  have all_succeed: "fst (activate h w) = Exits 0 \<and>
            \<not> host_running (snd (activate h w)) \<and>
            spawned (snd (activate h w)) = spawned w @ [launch h D] \<and>
            files (snd (activate h w)) =
              (files w)(batch_path_of h D \<mapsto> concat (reload_script h w B D))"
    if "open_error h = None" "writes_complete h (length (reload_script h w B D))"
      "popen_error h = None"
    unfolding a using reload_succeeds [of h ?w1 B D] that by (simp add: w1)
  have open_raises: "fst (activate h w) = Returns 0 \<and>
            host_running (snd (activate h w)) = host_running w \<and>
            spawned (snd (activate h w)) = spawned w \<and>
            files (snd (activate h w)) = files w"
    if "open_error h \<noteq> None"
  proof -
    from that obtain e' where "open_error h = Some e'"
      by auto
    then show ?thesis
      unfolding a by (simp add: reload_open_fails)
  qed
  have write_raises: "fst (activate h w) = Returns 0 \<and>
            host_running (snd (activate h w)) = host_running w \<and>
            spawned (snd (activate h w)) = spawned w \<and>
            files (snd (activate h w)) =
              (files w)(batch_path_of h D \<mapsto> concat (take k (reload_script h w B D)))"
    if "open_error h = None" "write_error h = Some (k, e)" "k < length (reload_script h w B D)"
    unfolding a using reload_write_fails [of h k e ?w1 B D] that by (simp add: w1)
  have popen_raises: "fst (activate h w) = Returns 0 \<and>
            host_running (snd (activate h w)) = host_running w \<and>
            spawned (snd (activate h w)) = spawned w \<and>
            files (snd (activate h w)) =
              (files w)(batch_path_of h D \<mapsto> concat (reload_script h w B D))"
    if "open_error h = None" "writes_complete h (length (reload_script h w B D))"
      "popen_error h \<noteq> None"
  proof -
    from that(3) obtain e' where "popen_error h = Some e'"
      by auto
    then show ?thesis
      unfolding a using reload_popen_fails [of h ?w1 B D e'] that(1,2) by (simp add: w1)
  qed
  from all_succeed open_raises write_raises popen_raises show ?thesis
    by blast
qed

theorem script_launched_or_left_unlaunched_witness:
  "fst (activate (host_sample\<lparr>popen_error := Some ''Resource temporarily unavailable''\<rparr>)
     world_sample) = Returns 0 \<and>
   host_running (snd (activate (host_sample\<lparr>popen_error := Some ''Resource temporarily unavailable''\<rparr>)
     world_sample)) \<and>
   spawned (snd (activate (host_sample\<lparr>popen_error := Some ''Resource temporarily unavailable''\<rparr>)
     world_sample)) = [] \<and>
   files (snd (activate (host_sample\<lparr>popen_error := Some ''Resource temporarily unavailable''\<rparr>)
     world_sample)) ''/tmp/sample_reload.bat'' =
     Some (echo_off_line @ delay_line @ del_line ''/tmp/sample.id0'' @ del_line ''/tmp/sample.i64'' @
           start_line ''/opt/ida/ida64'' ''/tmp/sample.bin'' @
           self_del_line ''/tmp/sample_reload.bat'')"
  using script_launched_or_left_unlaunched
    [of "host_sample\<lparr>popen_error := Some ''Resource temporarily unavailable''\<rparr>"
        "''/tmp/sample.bin''" world_sample "''/tmp/sample.i64''" 0 "[]"]
  by (simp add: sample_facts sample_exists sample_script sample_batch_path writes_complete_def)

subsection \<open>The deletion commands\<close>

lemma del_line_inject [simp]: "del_line p = del_line q \<longleftrightarrow> p = q"
  by (simp add: del_line_def quoted_def)

lemma del_line_not_self_del: "del_line p \<noteq> self_del_line bp"
proof
  assume "del_line p = self_del_line bp"
  then have "rev (del_line p) = rev (self_del_line bp)"
    by simp
  then show False
    by (simp add: del_line_def self_del_line_def quoted_def)
qed

lemma del_line_not_other [simp]:
  "del_line p \<noteq> echo_off_line"
  "del_line p \<noteq> delay_line"
  "del_line p \<noteq> start_line exe B"
  "del_line p \<noteq> self_del_line bp"
  "echo_off_line \<noteq> del_line p"
  "delay_line \<noteq> del_line p"
  "start_line exe B \<noteq> del_line p"
  "self_del_line bp \<noteq> del_line p"
  using del_line_not_self_del [of p bp]
  by (auto simp: del_line_def echo_off_line_def delay_line_def start_line_def)

lemma count_del_existing:
  "count_list (del_existing ex S exts) (del_line (S @ ext)) =
     (if ex (S @ ext) then count_list exts ext else 0)"
  by (induction exts) auto

lemma count_del_all: "count_list (del_all T exts) (del_line (T @ ext)) = count_list exts ext"
  by (induction exts) auto

lemma count_del_existing_other:
  "S \<noteq> T \<Longrightarrow> (\<And>x. x \<in> set exts \<Longrightarrow> length x = length ext) \<Longrightarrow>
   count_list (del_existing ex S exts) (del_line (T @ ext)) = 0"
  by (induction exts) auto

lemma count_del_all_other:
  "S \<noteq> T \<Longrightarrow> (\<And>x. x \<in> set exts \<Longrightarrow> length x = length ext) \<Longrightarrow>
   count_list (del_all T exts) (del_line (S @ ext)) = 0"
  by (induction exts) auto

lemma count_extensions: "ext \<in> set extensions \<Longrightarrow> count_list extensions ext = 1"
  by (auto simp: extensions_def)

lemma length_extensions: "x \<in> set extensions \<Longrightarrow> length x = 4"
  by (auto simp: extensions_def)

lemma count_script_writes_current:
  assumes "ext \<in> set extensions"
  shows "count_list (script_writes ex S T exe B bp) (del_line (S @ ext)) =
           (if ex (S @ ext) then 1 else 0)"
proof (cases "S = T")
  case True
  then show ?thesis
    by (simp add: script_writes_def count_del_existing count_extensions [OF assms])
next
  case False
  have "count_list (del_all T extensions) (del_line (S @ ext)) = 0"
    using False by (rule count_del_all_other) (simp add: length_extensions assms)
  with False show ?thesis
    by (simp add: script_writes_def count_del_existing count_extensions [OF assms])
qed

lemma count_script_writes_binary:
  assumes "ext \<in> set extensions"
    and "S \<noteq> T"
  shows "count_list (script_writes ex S T exe B bp) (del_line (T @ ext)) = 1"
proof -
  have "count_list (del_existing ex S extensions) (del_line (T @ ext)) = 0"
    using assms(2) by (rule count_del_existing_other) (simp add: length_extensions assms(1))
  with assms(2) show ?thesis
    by (simp add: script_writes_def count_del_all count_extensions [OF assms(1)])
qed

text \<open>
  C2 as stated fails: the first loop writes a deletion only when the file exists. In the
  sample session both stems are \<^verbatim>\<open>/tmp/sample\<close> and \<^verbatim>\<open>/tmp/sample.id1\<close> is not on
  disk: the script has no deletion for it. With the database at
  \<^verbatim>\<open>/tmp/work/proj.i64\<close> the stems differ and no \<^verbatim>\<open>/tmp/work/proj.*\<close> file is on
  disk: the script has no deletion for \<^verbatim>\<open>/tmp/work/proj.id0\<close>.
\<close>

theorem deletion_commands_missing:
  "fst (splitext Posixpath ''/tmp/sample.i64'') = fst (splitext Posixpath ''/tmp/sample.bin'') \<and>
   ''.id1'' \<in> set extensions \<and>
   count_list (reload_script host_sample world_sample ''/tmp/sample.bin'' ''/tmp/sample.i64'')
     (del_line ''/tmp/sample.id1'') = 0 \<and>
   fst (splitext Posixpath ''/tmp/work/proj.i64'') \<noteq> fst (splitext Posixpath ''/tmp/sample.bin'') \<and>
   ''.id0'' \<in> set extensions \<and>
   count_list (reload_script host_sample world_sample ''/tmp/sample.bin'' ''/tmp/work/proj.i64'')
     (del_line ''/tmp/work/proj.id0'') = 0"
proof -
  have stem: "splitext Posixpath ''/tmp/work/proj.i64'' = (''/tmp/work/proj'', ''.i64'')"
    by (simp add: splitext.simps splitext_generic_def rfind_def)
  have absent: "\<not> path_exists world_sample (''/tmp/work/proj'' @ ''.id0'')"
    by (simp add: path_exists_def world_sample_def)
  have "count_list (reload_script host_sample world_sample ''/tmp/sample.bin'' ''/tmp/sample.i64'')
     (del_line ''/tmp/sample.id1'') = 0"
    by (simp add: sample_script del_line_def echo_off_line_def delay_line_def start_line_def
        self_del_line_def quoted_def)
  moreover have "count_list
      (script_writes (path_exists world_sample) ''/tmp/work/proj'' ''/tmp/sample''
         ''/opt/ida/ida64'' ''/tmp/sample.bin'' (''/tmp/work/proj'' @ ''_reload.bat''))
      (del_line (''/tmp/work/proj'' @ ''.id0'')) = 0"
    using absent
      count_script_writes_current [of "''.id0''" "path_exists world_sample" "''/tmp/work/proj''"
        "''/tmp/sample''" "''/opt/ida/ida64''" "''/tmp/sample.bin''"
        "''/tmp/work/proj'' @ ''_reload.bat''"]
    by (simp add: extensions_def)
  ultimately show ?thesis
    by (simp add: reload_script_def batch_path_of_def sample_facts sample_stems stem extensions_def)
qed

text \<open>
  C2, amended. For each of the six extensions, the script has exactly one deletion for
  the database stem plus the extension when that file exists as the script is written,
  and none when it does not. When the stem of the input path differs from the database
  stem, the script also has exactly one deletion for the input stem plus the extension,
  whether that file exists or not.
\<close>

theorem deletion_commands_per_extension:
  assumes "ext \<in> set extensions"
  shows "count_list (reload_script h w B D) (del_line (fst (splitext (os_path h) D) @ ext)) =
           (if path_exists w (fst (splitext (os_path h) D) @ ext) then 1 else 0) \<and>
         (fst (splitext (os_path h) D) \<noteq> fst (splitext (os_path h) B) \<longrightarrow>
            count_list (reload_script h w B D) (del_line (fst (splitext (os_path h) B) @ ext)) = 1)"
  using assms
  by (simp add: reload_script_def count_script_writes_current count_script_writes_binary)

theorem deletion_commands_per_extension_witness:
  "count_list (reload_script host_sample world_sample ''/tmp/sample.bin'' ''/tmp/sample.i64'')
     (del_line ''/tmp/sample.id0'') = 1 \<and>
   count_list (reload_script host_sample world_sample ''/tmp/sample.bin'' ''/tmp/sample.i64'')
     (del_line ''/tmp/sample.nam'') = 0"
proof -
  have "''.id0'' \<in> set extensions" "''.nam'' \<in> set extensions"
    by (simp_all add: extensions_def)
  then show ?thesis
    using deletion_commands_per_extension
        [of "''.id0''" host_sample world_sample "''/tmp/sample.bin''" "''/tmp/sample.i64''"]
      deletion_commands_per_extension
        [of "''.nam''" host_sample world_sample "''/tmp/sample.bin''" "''/tmp/sample.i64''"]
    by (simp add: sample_facts sample_stems sample_exists)
qed

subsection \<open>The script's path and the order of its commands\<close>







subsection \<open>The relaunch and the self-deletion\<close>



subsection \<open>The platform\<close>

lemma write_script_platform [simp]:
  "write_script (h\<lparr>os_name := n, os_path := pm\<rparr>) S T B bp w = write_script h S T B bp w"
  by (simp add: write_script_def Let_def split: option.splits)

lemma without_flags_simps [simp]:
  "without_flags (print l w) = print l (without_flags w)"
  "without_flags (warning m w) = warning m (without_flags w)"
  "without_flags (w\<lparr>host_running := r\<rparr>) = (without_flags w)\<lparr>host_running := r\<rparr>"
  by (simp_all add: without_flags_def print_def warning_def)













end
